theory Spec2Isabelle
  imports Complex_Main "HOL-Library.Sublist"
begin

section \<open>Data model of map.js\<close>

text \<open>
  A JavaScript \<open>Date\<close> is either the invalid date (what \<open>new Date(s)\<close> gives for a
  string it cannot parse) or a point in time read through its local-time fields.
  \<open>getHours\<close> and \<open>getMinutes\<close> answer \<open>NaN\<close> on the invalid date; a number
  that may be \<open>NaN\<close> is an \<open>int option\<close>, with \<open>None\<close> for \<open>NaN\<close>.
\<close>

record date_fields =
  year :: int
  month :: nat
  day :: nat
  hours :: nat
  minutes :: nat
  seconds :: nat

datatype date = Invalid_Date | Date date_fields

fun getHours :: "date \<Rightarrow> int option" where
  "getHours Invalid_Date = None"
| "getHours (Date d) = Some (int (hours d))"

fun getMinutes :: "date \<Rightarrow> int option" where
  "getMinutes Invalid_Date = None"
| "getMinutes (Date d) = Some (int (minutes d))"

text \<open>
  A trip is a row of the trip log after the loader has replaced the two timestamp
  columns by dates. The code reads these four fields and no other.
\<close>

record trip =
  start_station_id :: string
  end_station_id :: string
  started_at :: date
  ended_at :: date

section \<open>Time-window filter\<close>

text \<open>\<open>date.getHours() * 60 + date.getMinutes()\<close>; arithmetic on \<open>NaN\<close> gives \<open>NaN\<close>.\<close>

definition minutesSinceMidnight :: "date \<Rightarrow> int option" where
  "minutesSinceMidnight d =
     (case getHours d of
        None \<Rightarrow> None
      | Some h \<Rightarrow> (case getMinutes d of None \<Rightarrow> None | Some m \<Rightarrow> Some (h * 60 + m)))"

text \<open>
  \<open>Math.abs(x - timeFilter) <= 60\<close> for a number \<open>x\<close> that may be \<open>NaN\<close>: every
  comparison with \<open>NaN\<close> is false.
\<close>

definition abs_diff_le_60 :: "int option \<Rightarrow> int \<Rightarrow> bool" where
  "abs_diff_le_60 x timeFilter =
     (case x of None \<Rightarrow> False | Some m \<Rightarrow> \<bar>m - timeFilter\<bar> \<le> 60)"

text \<open>The callback handed to \<open>trips.filter\<close>.\<close>

definition tripInWindow :: "int \<Rightarrow> trip \<Rightarrow> bool" where
  "tripInWindow timeFilter t =
     (let startedMinutes = minutesSinceMidnight (started_at t);
          endedMinutes = minutesSinceMidnight (ended_at t)
      in abs_diff_le_60 startedMinutes timeFilter \<or> abs_diff_le_60 endedMinutes timeFilter)"

definition filterTripsByTime :: "trip list \<Rightarrow> int \<Rightarrow> trip list" where
  "filterTripsByTime trips timeFilter =
     (if timeFilter = - 1 then trips else filter (tripInWindow timeFilter) trips)"

section \<open>Station traffic aggregator\<close>

text \<open>
  A station as the station feed delivers it. \<open>short_name\<close> is the identifier the
  aggregator groups by; \<open>lon\<close> and \<open>lat\<close> are read by the projection only and are
  carried along unchanged here.
\<close>

record station =
  short_name :: string
  lon :: rat
  lat :: rat

text \<open>The object built by \<open>{...station, arrivals, departures, totalTraffic}\<close>.\<close>

record station_traffic = station +
  arrivals :: nat
  departures :: nat
  totalTraffic :: nat

text \<open>
  \<open>d3.rollup(values, reduce, key)\<close> of the d3-array library: one pass over the
  values that looks the key's group up and either pushes the value on it or starts a
  new group, then a pass that replaces every group by its reduction. The map keeps
  the keys in the order of their first appearance: an association list.
\<close>

fun push_group :: "'k \<Rightarrow> 'a \<Rightarrow> ('k \<times> 'a list) list \<Rightarrow> ('k \<times> 'a list) list" where
  "push_group k v [] = [(k, [v])]"
| "push_group k v ((k', vs) # groups) =
     (if k' = k then (k', vs @ [v]) # groups else (k', vs) # push_group k v groups)"

definition d3_group :: "'a list \<Rightarrow> ('a \<Rightarrow> 'k) \<Rightarrow> ('k \<times> 'a list) list" where
  "d3_group values keyof = foldl (\<lambda>groups v. push_group (keyof v) v groups) [] values"

definition d3_rollup :: "'a list \<Rightarrow> ('a list \<Rightarrow> 'b) \<Rightarrow> ('a \<Rightarrow> 'k) \<Rightarrow> ('k \<times> 'b) list" where
  "d3_rollup values reduce keyof = map (\<lambda>(k, vs). (k, reduce vs)) (d3_group values keyof)"

text \<open>\<open>m.get(id) ?? 0\<close>: a key the map does not hold reads as 0.\<close>

definition get_or_0 :: "(string \<times> nat) list \<Rightarrow> string \<Rightarrow> nat" where
  "get_or_0 m k = (case map_of m k of None \<Rightarrow> 0 | Some n \<Rightarrow> n)"

text \<open>
  The callback of \<open>stations.map\<close>, with the two roll-ups as parameters. The spread
  \<open>...station\<close> copies the station's fields into the new object.
\<close>

definition stationWithTraffic ::
    "(string \<times> nat) list \<Rightarrow> (string \<times> nat) list \<Rightarrow> station \<Rightarrow> station_traffic" where
  "stationWithTraffic arrivalsMap departuresMap s =
     (let ident = short_name s;
          sArrivals = get_or_0 arrivalsMap ident;
          sDepartures = get_or_0 departuresMap ident;
          total = sArrivals + sDepartures
      in \<lparr>short_name = short_name s, lon = lon s, lat = lat s,
          arrivals = sArrivals, departures = sDepartures, totalTraffic = total\<rparr>)"

definition computeStationTraffic :: "station list \<Rightarrow> trip list \<Rightarrow> station_traffic list" where
  "computeStationTraffic stations trips =
     (let departuresMap = d3_rollup trips length start_station_id;
          arrivalsMap = d3_rollup trips length end_station_id
      in map (stationWithTraffic arrivalsMap departuresMap) stations)"

text \<open>The station part of an annotated station: the fields the spread copied.\<close>

definition station_of :: "station_traffic \<Rightarrow> station" where
  "station_of r = \<lparr>short_name = short_name r, lon = lon r, lat = lat r\<rparr>"

section \<open>The aggregator over a store of objects\<close>

text \<open>
  JavaScript hands stations and trips around by reference. To say what a call does to
  the objects it was given, the objects live in a store: a list of objects, a reference
  being an index into it. An object literal allocates at the end of the store.
  Reading through a reference that holds no object of the expected kind is \<open>None\<close>.
\<close>

datatype object =
  Station_object station
| Station_traffic_object station_traffic
| Trip_object trip

type_synonym heap = "object list"

definition alloc :: "heap \<Rightarrow> object \<Rightarrow> nat \<times> heap" where
  "alloc h ob = (length h, h @ [ob])"

definition deref :: "heap \<Rightarrow> nat \<Rightarrow> object option" where
  "deref h r = (if r < length h then Some (h ! r) else None)"

definition get_station :: "heap \<Rightarrow> nat \<Rightarrow> station option" where
  "get_station h r = (case deref h r of Some (Station_object s) \<Rightarrow> Some s | _ \<Rightarrow> None)"

definition get_trip :: "heap \<Rightarrow> nat \<Rightarrow> trip option" where
  "get_trip h r = (case deref h r of Some (Trip_object t) \<Rightarrow> Some t | _ \<Rightarrow> None)"

text \<open>The roll-ups read every trip of the array through its reference.\<close>

fun read_trips :: "heap \<Rightarrow> nat list \<Rightarrow> trip list option" where
  "read_trips h [] = Some []"
| "read_trips h (r # rs) =
     (case get_trip h r of
        None \<Rightarrow> None
      | Some t \<Rightarrow> (case read_trips h rs of None \<Rightarrow> None | Some ts \<Rightarrow> Some (t # ts)))"

fun read_stations :: "heap \<Rightarrow> nat list \<Rightarrow> station list option" where
  "read_stations h [] = Some []"
| "read_stations h (r # rs) =
     (case get_station h r of
        None \<Rightarrow> None
      | Some s \<Rightarrow> (case read_stations h rs of None \<Rightarrow> None | Some ss \<Rightarrow> Some (s # ss)))"

text \<open>
  \<open>stations.map\<close> over references: each step reads the station and allocates the
  annotated object, and the result array holds the new references.
\<close>

fun map_stations ::
    "(string \<times> nat) list \<Rightarrow> (string \<times> nat) list \<Rightarrow> heap \<Rightarrow> nat list \<Rightarrow> (nat list \<times> heap) option" where
  "map_stations arrivalsMap departuresMap h [] = Some ([], h)"
| "map_stations arrivalsMap departuresMap h (r # rs) =
     (case get_station h r of
        None \<Rightarrow> None
      | Some s \<Rightarrow>
          (let (r', h') = alloc h (Station_traffic_object (stationWithTraffic arrivalsMap departuresMap s))
           in case map_stations arrivalsMap departuresMap h' rs of
                None \<Rightarrow> None
              | Some (rs', h'') \<Rightarrow> Some (r' # rs', h'')))"

definition computeStationTraffic_heap :: "heap \<Rightarrow> nat list \<Rightarrow> nat list \<Rightarrow> (nat list \<times> heap) option" where
  "computeStationTraffic_heap h stations trips =
     (case read_trips h trips of
        None \<Rightarrow> None
      | Some ts \<Rightarrow>
          (let departuresMap = d3_rollup ts length start_station_id;
               arrivalsMap = d3_rollup ts length end_station_id
           in map_stations arrivalsMap departuresMap h stations))"

section \<open>Radius and colour mapping\<close>

text \<open>
  A JavaScript number that a division of two counts can produce: a finite value (the
  doubles are idealised as rationals), \<open>Infinity\<close> or \<open>NaN\<close>.
\<close>

datatype js_number = Finite rat | Infinity | NaN

definition js_div :: "nat \<Rightarrow> nat \<Rightarrow> js_number" where
  "js_div a b =
     (if b = 0 then (if a = 0 then NaN else Infinity) else Finite (of_nat a / of_nat b))"

text \<open>
  \<open>d3.scaleQuantize().domain([x0, x1]).range(values)\<close> of the d3-scale library: with
  \<open>n = length values - 1\<close> it cuts the domain at the \<open>n\<close> thresholds
  \<open>((i + 1) * x1 - (i - n) * x0) / (n + 1)\<close> and answers the value whose index is the
  number of thresholds not above the input (\<open>bisectRight\<close>); \<open>NaN\<close> has no answer.
\<close>

definition quantize_thresholds :: "rat \<Rightarrow> rat \<Rightarrow> nat \<Rightarrow> rat list" where
  "quantize_thresholds x0 x1 n =
     map (\<lambda>i. ((of_nat i + 1) * x1 - (of_nat i - of_nat n) * x0) / (of_nat n + 1)) [0..<n]"

definition bisectRight :: "rat list \<Rightarrow> rat \<Rightarrow> nat" where
  "bisectRight thresholds x = length (takeWhile (\<lambda>t. t \<le> x) thresholds)"

definition scaleQuantize :: "rat \<times> rat \<Rightarrow> rat list \<Rightarrow> js_number \<Rightarrow> rat option" where
  "scaleQuantize dom_q values x =
     (let n = length values - 1;
          thresholds = quantize_thresholds (fst dom_q) (snd dom_q) n
      in case x of
           NaN \<Rightarrow> None
         | Infinity \<Rightarrow> Some (values ! n)
         | Finite q \<Rightarrow> Some (values ! bisectRight thresholds q))"

definition stationFlow :: "js_number \<Rightarrow> rat option" where
  "stationFlow = scaleQuantize (0, 1) [0, 1 / 2, 1]"

text \<open>\<open>d.totalTraffic ? d.departures / d.totalTraffic : 0.5\<close>; 0 is the only falsy count.\<close>

definition departureRatio :: "station_traffic \<Rightarrow> js_number" where
  "departureRatio d =
     (if totalTraffic d \<noteq> 0 then js_div (departures d) (totalTraffic d) else Finite (1 / 2))"

text \<open>
  \<open>d3.max(values, accessor)\<close> of d3-array: the running maximum, \<open>undefined\<close>
  (\<open>None\<close>) when there is no value.
\<close>

definition d3_max :: "nat list \<Rightarrow> nat option" where
  "d3_max values =
     foldl (\<lambda>mx v. case mx of None \<Rightarrow> Some v | Some m \<Rightarrow> if m < v then Some v else Some m)
       None values"

text \<open>
  What \<open>updateScatterPlot\<close> computes: the aggregated stations, the configuration of
  the square-root radius scale it sets, and the colour bucket of every station.
\<close>

record scatter_plot =
  plot_data :: "station_traffic list"
  radius_domain :: "nat \<times> nat"
  radius_range :: "nat \<times> nat"
  departure_ratio_style :: "rat option list"

definition updateScatterPlot :: "station list \<Rightarrow> trip list \<Rightarrow> int \<Rightarrow> scatter_plot" where
  "updateScatterPlot stations trips timeFilter =
     (let filteredTrips = filterTripsByTime trips timeFilter;
          filteredStations = computeStationTraffic stations filteredTrips;
          maxTraffic = (case d3_max (map totalTraffic filteredStations) of None \<Rightarrow> 0 | Some m \<Rightarrow> m)
      in \<lparr>plot_data = filteredStations,
          radius_domain = (0, if maxTraffic = 0 then 1 else maxTraffic),
          radius_range = (if timeFilter = - 1 then (0, 25) else (3, 50)),
          departure_ratio_style = map (\<lambda>d. stationFlow (departureRatio d)) filteredStations\<rparr>)"

section \<open>Bike-lane layers added on map load\<close>

record source_spec =
  source_type :: string
  source_data :: string

record paint =
  line_color :: string
  line_width :: nat
  line_opacity :: rat

record layer =
  layer_id :: string
  layer_type :: string
  layer_source :: string
  layer_paint :: paint

record map_style =
  sources :: "(string \<times> source_spec) list"
  layers :: "layer list"

definition BOSTON_BIKE_LANES_URL :: string where
  "BOSTON_BIKE_LANES_URL =
     ''https://bostonopendata-boston.opendata.arcgis.com/datasets/boston::existing-bike-network-2022.geojson''"

definition CAMBRIDGE_BIKE_LANES_URL :: string where
  "CAMBRIDGE_BIKE_LANES_URL =
     ''https://raw.githubusercontent.com/cambridgegis/cambridgegis_data/main/Recreation/Bike_Facilities/RECREATION_BikeFacilities.geojson''"

definition addSource :: "string \<Rightarrow> source_spec \<Rightarrow> map_style \<Rightarrow> map_style" where
  "addSource name spec m = m\<lparr>sources := sources m @ [(name, spec)]\<rparr>"

definition addLayer :: "layer \<Rightarrow> map_style \<Rightarrow> map_style" where
  "addLayer l m = m\<lparr>layers := layers m @ [l]\<rparr>"

definition bikeLanePaint :: paint where
  "bikeLanePaint = \<lparr>line_color = ''#32D400'', line_width = 3, line_opacity = 6 / 10\<rparr>"

text \<open>Step 2 of the load handler, on the style the map has when the event fires.\<close>

definition on_load_bike_lanes :: "map_style \<Rightarrow> map_style" where
  "on_load_bike_lanes m0 =
     (let m1 = addSource ''boston_route''
                 \<lparr>source_type = ''geojson'', source_data = BOSTON_BIKE_LANES_URL\<rparr> m0;
          m2 = addLayer \<lparr>layer_id = ''boston-bike-lanes'', layer_type = ''line'',
                         layer_source = ''boston_route'', layer_paint = bikeLanePaint\<rparr> m1
      in if CAMBRIDGE_BIKE_LANES_URL \<noteq>
            ''https://raw.githubusercontent.com/cambridgegis/cambridgegis_data/main/Recreation/Bike_Facilities/RECREATION_BikeFacilities.geojson''
         then
           (let m3 = addSource ''cambridge_route''
                       \<lparr>source_type = ''geojson'', source_data = CAMBRIDGE_BIKE_LANES_URL\<rparr> m2
            in addLayer \<lparr>layer_id = ''cambridge-bike-lanes'', layer_type = ''line'',
                          layer_source = ''cambridge_route'', layer_paint = bikeLanePaint\<rparr> m3)
         else m2)"

section \<open>Example data\<close>

text \<open>Stations, trips and a store for the scenarios the theorems below are run on.\<close>

definition station_A :: station where
  "station_A = \<lparr>short_name = ''A'', lon = - 71, lat = 42\<rparr>"

definition station_B :: station where
  "station_B = \<lparr>short_name = ''B'', lon = - 71 - 1 / 10, lat = 42 + 3 / 10\<rparr>"

definition station_C :: station where
  "station_C = \<lparr>short_name = ''C'', lon = - 70, lat = 41\<rparr>"

definition noon :: date where
  "noon = Date \<lparr>year = 2024, month = 3, day = 1, hours = 12, minutes = 0, seconds = 0\<rparr>"

definition trip_A_B :: trip where
  "trip_A_B = \<lparr>start_station_id = ''A'', end_station_id = ''B'', started_at = noon, ended_at = noon\<rparr>"

definition trip_A_A :: trip where
  "trip_A_A = \<lparr>start_station_id = ''A'', end_station_id = ''A'', started_at = noon, ended_at = noon\<rparr>"

definition trip_ZZZ :: trip where
  "trip_ZZZ = \<lparr>start_station_id = ''ZZZ'', end_station_id = ''YYY'', started_at = noon, ended_at = noon\<rparr>"

definition trip_ZZZ_A :: trip where
  "trip_ZZZ_A = \<lparr>start_station_id = ''ZZZ'', end_station_id = ''A'', started_at = noon, ended_at = noon\<rparr>"

definition at_time :: "nat \<Rightarrow> nat \<Rightarrow> nat \<Rightarrow> date" where
  "at_time h m s = Date \<lparr>year = 2024, month = 3, day = 1, hours = h, minutes = m, seconds = s\<rparr>"

definition trip_0855 :: trip where
  "trip_0855 = \<lparr>start_station_id = ''A'', end_station_id = ''B'',
                 started_at = at_time 8 55 0, ended_at = at_time 8 58 30\<rparr>"

definition trip_0900 :: trip where
  "trip_0900 = \<lparr>start_station_id = ''A'', end_station_id = ''A'',
                 started_at = at_time 9 0 59, ended_at = at_time 8 59 0\<rparr>"

definition trip_2330 :: trip where
  "trip_2330 = \<lparr>start_station_id = ''B'', end_station_id = ''A'',
                 started_at = at_time 23 30 0, ended_at = at_time 23 45 0\<rparr>"

definition trip_invalid :: trip where
  "trip_invalid = \<lparr>start_station_id = ''B'', end_station_id = ''A'',
                 started_at = Invalid_Date, ended_at = Invalid_Date\<rparr>"

definition example_heap :: heap where
  "example_heap = [Station_object station_A, Trip_object trip_A_B, Station_object station_B,
                   Trip_object trip_A_A, Trip_object trip_ZZZ]"

definition busy_station :: station_traffic where
  "busy_station = \<lparr>short_name = ''A'', lon = - 71, lat = 42,
                    arrivals = 1, departures = 2, totalTraffic = 3\<rparr>"

definition idle_station :: station_traffic where
  "idle_station = \<lparr>short_name = ''C'', lon = - 70, lat = 41,
                    arrivals = 0, departures = 0, totalTraffic = 0\<rparr>"

section \<open>Auxiliary lemmas\<close>

text \<open>
  A roll-up by length, read with \<open>get_or_0\<close>, counts the values that carry the key.
\<close>

lemma map_of_push_group:
  "map_of (push_group k v g) k' =
     (if k' = k then Some ((case map_of g k of None \<Rightarrow> [] | Some vs \<Rightarrow> vs) @ [v]) else map_of g k')"
  by (induction g) auto

lemma map_of_foldl_push_group:
  "map_of (foldl (\<lambda>groups v. push_group (keyof v) v groups) g vs) k =
     (if filter (\<lambda>v. keyof v = k) vs = [] then map_of g k
      else Some ((case map_of g k of None \<Rightarrow> [] | Some xs \<Rightarrow> xs) @ filter (\<lambda>v. keyof v = k) vs))"
proof (induction vs arbitrary: g)
  case Nil
  show ?case by simp
next
  case (Cons v vs)
  show ?case
    by (simp add: Cons.IH map_of_push_group)
qed

lemma map_of_d3_group:
  "map_of (d3_group vs keyof) k =
     (if filter (\<lambda>v. keyof v = k) vs = [] then None else Some (filter (\<lambda>v. keyof v = k) vs))"
  by (simp add: d3_group_def map_of_foldl_push_group)

lemma map_of_d3_rollup:
  "map_of (d3_rollup vs reduce keyof) k = map_option reduce (map_of (d3_group vs keyof) k)"
  by (simp add: d3_rollup_def map_of_map)

lemma get_or_0_rollup:
  "get_or_0 (d3_rollup vs length keyof) k = length (filter (\<lambda>v. keyof v = k) vs)"
  by (simp add: get_or_0_def map_of_d3_rollup map_of_d3_group)

lemma computeStationTraffic_eq:
  "computeStationTraffic S T =
     map (\<lambda>s. \<lparr>short_name = short_name s, lon = lon s, lat = lat s,
               arrivals = length (filter (\<lambda>t. end_station_id t = short_name s) T),
               departures = length (filter (\<lambda>t. start_station_id t = short_name s) T),
               totalTraffic = length (filter (\<lambda>t. end_station_id t = short_name s) T)
                            + length (filter (\<lambda>t. start_station_id t = short_name s) T)\<rparr>) S"
  by (simp add: computeStationTraffic_def stationWithTraffic_def get_or_0_rollup Let_def)

text \<open>\<open>d3_max\<close> is the maximum of a non-empty list.\<close>

lemma Max_insert_absorb:
  fixes m x :: nat
  shows "Max (insert (if m < x then x else m) (set xs)) = Max (insert m (insert x (set xs)))"
proof (cases "m < x")
  case True
  have "x \<le> Max (insert x (set xs))"
    by (rule Max_ge) simp_all
  with True have le: "m \<le> Max (insert x (set xs))"
    by linarith
  have "Max (insert m (insert x (set xs))) = max m (Max (insert x (set xs)))"
    by (rule Max_insert) simp_all
  also have "\<dots> = Max (insert x (set xs))"
    using le by (rule max_absorb2)
  finally show ?thesis
    by (simp only: if_P [OF True])
next
  case False
  have "m \<le> Max (insert m (set xs))"
    by (rule Max_ge) simp_all
  with False have le: "x \<le> Max (insert m (set xs))"
    by linarith
  have "Max (insert m (insert x (set xs))) = Max (insert x (insert m (set xs)))"
    by (simp only: insert_commute)
  also have "\<dots> = max x (Max (insert m (set xs)))"
    by (rule Max_insert) simp_all
  also have "\<dots> = Max (insert m (set xs))"
    using le by (rule max_absorb2)
  finally show ?thesis
    by (simp only: if_not_P [OF False])
qed

lemma foldl_running_max:
  "foldl (\<lambda>mx v. case mx of None \<Rightarrow> Some v | Some m \<Rightarrow> if m < v then Some v else Some m)
     (Some (m::nat)) xs = Some (Max (insert m (set xs)))"
proof (induction xs arbitrary: m)
  case Nil
  show ?case by simp
next
  case (Cons x xs)
  show ?case
  proof (cases "m < x")
    case True
    with Cons.IH [of x] Max_insert_absorb [of m x xs] show ?thesis by simp
  next
    case False
    with Cons.IH [of m] Max_insert_absorb [of m x xs] show ?thesis by simp
  qed
qed

lemma d3_max_eq: "d3_max xs = (if xs = [] then None else Some (Max (set xs)))"
  by (cases xs) (simp_all add: d3_max_def foldl_running_max)

lemma Max_eq_0_iff: "xs \<noteq> [] \<Longrightarrow> Max (set xs) = (0::nat) \<longleftrightarrow> (\<forall>x \<in> set xs. x = 0)"
  by (metis List.finite_set Max_ge Max_in le_zero_eq set_empty)

lemma max_or_one:
  fixes g :: "'a \<Rightarrow> nat"
  shows "(case d3_max (map g ds) of None \<Rightarrow> 0 | Some m \<Rightarrow> m) = 0 \<longleftrightarrow> (\<forall>d \<in> set ds. g d = 0)"
    and "\<not> (\<forall>d \<in> set ds. g d = 0) \<Longrightarrow>
         (case d3_max (map g ds) of None \<Rightarrow> 0 | Some m \<Rightarrow> m) = Max (set (map g ds))"
proof -
  show "(case d3_max (map g ds) of None \<Rightarrow> 0 | Some m \<Rightarrow> m) = 0 \<longleftrightarrow> (\<forall>d \<in> set ds. g d = 0)"
  proof (cases "ds = []")
    case True
    then show ?thesis by (simp add: d3_max_def)
  next
    case False
    then have "map g ds \<noteq> []" by simp
    from Max_eq_0_iff [OF this] False show ?thesis
      by (simp add: d3_max_eq)
  qed
  show "(case d3_max (map g ds) of None \<Rightarrow> 0 | Some m \<Rightarrow> m) = Max (set (map g ds))"
    if "\<not> (\<forall>d \<in> set ds. g d = 0)"
  proof -
    from that have "ds \<noteq> []" by auto
    then show ?thesis by (simp add: d3_max_eq)
  qed
qed

text \<open>The three buckets of \<open>stationFlow\<close>: below 1/3, below 2/3, and the rest.\<close>

lemma stationFlow_Finite:
  "stationFlow (Finite q) = Some (if q < 1 / 3 then 0 else if q < 2 / 3 then 1 / 2 else 1)"
  by (simp add: stationFlow_def scaleQuantize_def quantize_thresholds_def bisectRight_def
      upt_rec [of 0] upt_rec [of 1] not_le)

text \<open>Reading through references, before and after allocations.\<close>

lemma deref_append: "r < length h \<Longrightarrow> deref (h @ h') r = deref h r"
  by (simp add: deref_def nth_append)

lemma get_station_Some_less: "get_station h r = Some s \<Longrightarrow> r < length h"
  by (simp add: get_station_def deref_def split: if_splits)

lemma get_trip_Some_less: "get_trip h r = Some t \<Longrightarrow> r < length h"
  by (simp add: get_trip_def deref_def split: if_splits)

lemma get_station_append: "get_station h r = Some s \<Longrightarrow> get_station (h @ h') r = Some s"
  using get_station_Some_less [of h r s] by (simp add: get_station_def deref_append)

lemma get_trip_append: "get_trip h r = Some t \<Longrightarrow> get_trip (h @ h') r = Some t"
  using get_trip_Some_less [of h r t] by (simp add: get_trip_def deref_append)

lemma read_stations_append:
  "read_stations h rs = Some ss \<Longrightarrow> read_stations (h @ h') rs = Some ss"
proof (induction rs arbitrary: ss)
  case Nil
  then show ?case by simp
next
  case (Cons r rs)
  from Cons.prems obtain s ss' where s: "get_station h r = Some s"
    and ss': "read_stations h rs = Some ss'" and ss: "ss = s # ss'"
    by (auto split: option.splits)
  from get_station_append [OF s] Cons.IH [OF ss'] ss show ?case
    by simp
qed

lemma read_trips_append:
  "read_trips h rs = Some ts \<Longrightarrow> read_trips (h @ h') rs = Some ts"
proof (induction rs arbitrary: ts)
  case Nil
  then show ?case by simp
next
  case (Cons r rs)
  from Cons.prems obtain t ts' where t: "get_trip h r = Some t"
    and ts': "read_trips h rs = Some ts'" and ts: "ts = t # ts'"
    by (auto split: option.splits)
  from get_trip_append [OF t] Cons.IH [OF ts'] ts show ?case
    by simp
qed

lemma read_stations_length: "read_stations h rs = Some ss \<Longrightarrow> length ss = length rs"
  by (induction rs arbitrary: ss) (auto split: option.splits)

lemma map_stations_eq:
  "read_stations h rs = Some ss \<Longrightarrow>
   map_stations a d h rs =
     Some ([length h ..< length h + length rs],
           h @ map (\<lambda>s. Station_traffic_object (stationWithTraffic a d s)) ss)"
proof (induction rs arbitrary: h ss)
  case Nil
  then show ?case by simp
next
  case (Cons r rs)
  from Cons.prems obtain s ss' where s: "get_station h r = Some s"
    and ss': "read_stations h rs = Some ss'" and ss: "ss = s # ss'"
    by (auto split: option.splits)
  let ?h = "h @ [Station_traffic_object (stationWithTraffic a d s)]"
  from ss' have "read_stations ?h rs = Some ss'"
    by (rule read_stations_append)
  from Cons.IH [OF this] s ss show ?case
    by (simp add: alloc_def upt_conv_Cons del: upt_Suc)
qed

lemma computeStationTraffic_heap_eq:
  assumes "read_stations h S = Some ss" and "read_trips h T = Some ts"
  shows "computeStationTraffic_heap h S T =
           Some ([length h ..< length h + length S],
                 h @ map Station_traffic_object (computeStationTraffic ss ts))"
  using assms
  by (simp add: computeStationTraffic_heap_def computeStationTraffic_def Let_def map_stations_eq)

lemma minutesSinceMidnight_Some:
  "minutesSinceMidnight d = Some m \<longleftrightarrow> (\<exists>x. d = Date x \<and> m = int (hours x) * 60 + int (minutes x))"
  by (cases d) (auto simp: minutesSinceMidnight_def)

lemma tripInWindow_iff:
  "tripInWindow f t \<longleftrightarrow>
     (\<exists>m. minutesSinceMidnight (started_at t) = Some m \<and> \<bar>m - f\<bar> \<le> 60) \<or>
     (\<exists>m. minutesSinceMidnight (ended_at t) = Some m \<and> \<bar>m - f\<bar> \<le> 60)"
  by (auto simp: tripInWindow_def abs_diff_le_60_def Let_def split: option.splits)

lemma msm_Invalid_Date: "minutesSinceMidnight Invalid_Date = None"
  by (simp add: minutesSinceMidnight_def)

lemma msm_at_time: "minutesSinceMidnight (at_time h m s) = Some (int h * 60 + int m)"
  by (simp add: at_time_def minutesSinceMidnight_def)

lemma filter_known_start:
  "s \<in> set S \<Longrightarrow>
   filter (\<lambda>t. start_station_id t \<in> short_name ` set S \<and> start_station_id t = short_name s) T
     = filter (\<lambda>t. start_station_id t = short_name s) T"
  by (rule filter_cong) auto

lemma filter_known_end:
  "s \<in> set S \<Longrightarrow>
   filter (\<lambda>t. end_station_id t \<in> short_name ` set S \<and> end_station_id t = short_name s) T
     = filter (\<lambda>t. end_station_id t = short_name s) T"
  by (rule filter_cong) auto

section \<open>Station traffic aggregator: claims\<close>

text \<open>
  C1. For all stations \<open>S\<close> and trips \<open>T\<close>, \<open>computeStationTraffic S T\<close> has the
  length of \<open>S\<close> and, position by position, the stations of \<open>S\<close> themselves; at
  every position the departures are the number of trips that start at the station's
  identifier, the arrivals the number of trips that end there, the total traffic is their
  sum, and a station that no trip names has 0 in all three. The identifiers need not be
  unique for this.
\<close>

theorem computeStationTraffic_counts:
  "length (computeStationTraffic S T) = length S \<and>
   map station_of (computeStationTraffic S T) = S \<and>
   (\<forall>i < length S.
      departures (computeStationTraffic S T ! i)
        = length (filter (\<lambda>t. start_station_id t = short_name (S ! i)) T) \<and>
      arrivals (computeStationTraffic S T ! i)
        = length (filter (\<lambda>t. end_station_id t = short_name (S ! i)) T) \<and>
      totalTraffic (computeStationTraffic S T ! i)
        = arrivals (computeStationTraffic S T ! i) + departures (computeStationTraffic S T ! i) \<and>
      ((\<forall>t \<in> set T. start_station_id t \<noteq> short_name (S ! i) \<and> end_station_id t \<noteq> short_name (S ! i))
        \<longrightarrow> departures (computeStationTraffic S T ! i) = 0 \<and>
            arrivals (computeStationTraffic S T ! i) = 0 \<and>
            totalTraffic (computeStationTraffic S T ! i) = 0))"
  by (simp add: computeStationTraffic_eq station_of_def comp_def map_idI)

text \<open>Scenario A, with a third station that no trip names.\<close>

theorem computeStationTraffic_counts_witness:
  "(0::nat) < length [station_A, station_B, station_C] \<and>
   departures (computeStationTraffic [station_A, station_B, station_C] [trip_A_B, trip_A_A] ! 0) = 2 \<and>
   arrivals (computeStationTraffic [station_A, station_B, station_C] [trip_A_B, trip_A_A] ! 0) = 1 \<and>
   totalTraffic (computeStationTraffic [station_A, station_B, station_C] [trip_A_B, trip_A_A] ! 0) = 3 \<and>
   (1::nat) < length [station_A, station_B, station_C] \<and>
   departures (computeStationTraffic [station_A, station_B, station_C] [trip_A_B, trip_A_A] ! 1) = 0 \<and>
   arrivals (computeStationTraffic [station_A, station_B, station_C] [trip_A_B, trip_A_A] ! 1) = 1 \<and>
   totalTraffic (computeStationTraffic [station_A, station_B, station_C] [trip_A_B, trip_A_A] ! 1) = 1 \<and>
   (2::nat) < length [station_A, station_B, station_C] \<and>
   start_station_id trip_A_B \<noteq> short_name ([station_A, station_B, station_C] ! 2) \<and>
   end_station_id trip_A_B \<noteq> short_name ([station_A, station_B, station_C] ! 2) \<and>
   start_station_id trip_A_A \<noteq> short_name ([station_A, station_B, station_C] ! 2) \<and>
   end_station_id trip_A_A \<noteq> short_name ([station_A, station_B, station_C] ! 2) \<and>
   departures (computeStationTraffic [station_A, station_B, station_C] [trip_A_B, trip_A_A] ! 2) = 0 \<and>
   arrivals (computeStationTraffic [station_A, station_B, station_C] [trip_A_B, trip_A_A] ! 2) = 0 \<and>
   totalTraffic (computeStationTraffic [station_A, station_B, station_C] [trip_A_B, trip_A_A] ! 2) = 0 \<and>
   map station_of (computeStationTraffic [station_A, station_B, station_C] [trip_A_B, trip_A_A])
     = [station_A, station_B, station_C]"
proof -
  let ?S = "[station_A, station_B, station_C]" and ?T = "[trip_A_B, trip_A_A]"
  note c = computeStationTraffic_counts [of ?S ?T]
  from c have i: "map station_of (computeStationTraffic ?S ?T) = ?S" by blast
  from c have all: "\<forall>i < length ?S.
      departures (computeStationTraffic ?S ?T ! i)
        = length (filter (\<lambda>t. start_station_id t = short_name (?S ! i)) ?T) \<and>
      arrivals (computeStationTraffic ?S ?T ! i)
        = length (filter (\<lambda>t. end_station_id t = short_name (?S ! i)) ?T) \<and>
      totalTraffic (computeStationTraffic ?S ?T ! i)
        = arrivals (computeStationTraffic ?S ?T ! i) + departures (computeStationTraffic ?S ?T ! i) \<and>
      ((\<forall>t \<in> set ?T. start_station_id t \<noteq> short_name (?S ! i) \<and> end_station_id t \<noteq> short_name (?S ! i))
        \<longrightarrow> departures (computeStationTraffic ?S ?T ! i) = 0 \<and>
            arrivals (computeStationTraffic ?S ?T ! i) = 0 \<and>
            totalTraffic (computeStationTraffic ?S ?T ! i) = 0)"
    by blast
  have h: "\<forall>t \<in> set ?T. start_station_id t \<noteq> short_name (?S ! 2) \<and> end_station_id t \<noteq> short_name (?S ! 2)"
    by (simp add: station_C_def trip_A_B_def trip_A_A_def)
  from all [rule_format, of 0] all [rule_format, of 1] all [rule_format, of 2] h i
  show ?thesis
    by (simp add: station_A_def station_B_def station_C_def trip_A_B_def trip_A_A_def)
qed

section \<open>Time-window filter: claims\<close>

text \<open>
  C2. For a filter value \<open>f\<close> other than \<open>-1\<close>, \<open>filterTripsByTime T f\<close> keeps exactly
  the trips of \<open>T\<close> whose start or whose end has a minute of day \<open>m\<close> with
  \<open>\<bar>m - f\<bar> \<le> 60\<close>, where the minute of day of a date is \<open>hours * 60 + minutes\<close>
  (seconds and calendar date play no part, and an invalid date has none). The bound is
  inclusive and nothing wraps around midnight.
\<close>

theorem filterTripsByTime_window:
  assumes "f \<noteq> - 1"
  shows "filterTripsByTime T f =
           filter (\<lambda>t. (\<exists>m. minutesSinceMidnight (started_at t) = Some m \<and> \<bar>m - f\<bar> \<le> 60) \<or>
                        (\<exists>m. minutesSinceMidnight (ended_at t) = Some m \<and> \<bar>m - f\<bar> \<le> 60)) T \<and>
         (t \<in> set (filterTripsByTime T f) \<longleftrightarrow>
            t \<in> set T \<and>
            ((\<exists>m. minutesSinceMidnight (started_at t) = Some m \<and> \<bar>m - f\<bar> \<le> 60) \<or>
             (\<exists>m. minutesSinceMidnight (ended_at t) = Some m \<and> \<bar>m - f\<bar> \<le> 60))) \<and>
         minutesSinceMidnight (Date d) = Some (int (hours d) * 60 + int (minutes d)) \<and>
         minutesSinceMidnight Invalid_Date = None"
  using assms
  by (auto simp: filterTripsByTime_def tripInWindow_iff minutesSinceMidnight_def cong: filter_cong)

text \<open>
  With \<open>f = 600\<close>: the trip starting 09:00:59 (minute 540, difference exactly 60) is
  kept, the trip starting 08:55 and ending 08:58 is dropped. With \<open>f = 0\<close> the trip at
  23:30 (difference 1410) is dropped.
\<close>

theorem filterTripsByTime_window_witness:
  "(600::int) \<noteq> - 1 \<and>
   filterTripsByTime [trip_0855, trip_0900, trip_2330, trip_invalid] 600 = [trip_0900] \<and>
   trip_0900 \<in> set (filterTripsByTime [trip_0855, trip_0900, trip_2330, trip_invalid] 600) \<and>
   trip_0855 \<notin> set (filterTripsByTime [trip_0855, trip_0900, trip_2330, trip_invalid] 600) \<and>
   (0::int) \<noteq> - 1 \<and>
   trip_2330 \<notin> set (filterTripsByTime [trip_0855, trip_0900, trip_2330, trip_invalid] 0)"
proof -
  let ?T = "[trip_0855, trip_0900, trip_2330, trip_invalid]"
  have a: "(600::int) \<noteq> - 1" and b: "(0::int) \<noteq> - 1"
    by simp_all
  have at_600: "filterTripsByTime ?T 600 = [trip_0900]"
    unfolding filterTripsByTime_window [OF a, of ?T trip_0900, THEN conjunct1]
    by (simp add: trip_0855_def trip_0900_def trip_2330_def trip_invalid_def msm_at_time
        msm_Invalid_Date)
  have at_0: "filterTripsByTime ?T 0 = []"
    unfolding filterTripsByTime_window [OF b, of ?T trip_2330, THEN conjunct1]
    by (simp add: trip_0855_def trip_0900_def trip_2330_def trip_invalid_def msm_at_time
        msm_Invalid_Date)
  have "trip_0855 \<noteq> trip_0900"
    by (simp add: trip_0855_def trip_0900_def)
  with a b show ?thesis
    unfolding at_600 at_0 by simp
qed

text \<open>
  C3. With the filter value \<open>-1\<close>, \<open>filterTripsByTime\<close> returns the trip sequence it
  was given: the same elements in the same order.
\<close>

theorem filterTripsByTime_no_filter: "filterTripsByTime T (- 1) = T"
  by (simp add: filterTripsByTime_def)

section \<open>Presentation: claims\<close>

text \<open>
  C4 as stated fails when no station has traffic: for one station and no trips the
  largest total traffic is 0, and the domain set is \<open>[0, 1]\<close>, not \<open>[0, 0]\<close>.
\<close>

theorem updateScatterPlot_domain_counterexample:
  "map totalTraffic (plot_data (updateScatterPlot [station_A] [] (- 1))) = [0] \<and>
   radius_domain (updateScatterPlot [station_A] [] (- 1)) = (0, 1) \<and>
   radius_domain (updateScatterPlot [station_A] [] (- 1)) \<noteq>
     (0, Max (set (map totalTraffic (plot_data (updateScatterPlot [station_A] [] (- 1))))))"
  by (simp add: updateScatterPlot_def computeStationTraffic_eq d3_max_def filterTripsByTime_def)

text \<open>
  C4, amended. \<open>updateScatterPlot\<close> aggregates the stations over the filtered trips and
  sets the radius scale's domain to \<open>[0, M]\<close>, where \<open>M\<close> is the largest total traffic
  of the aggregated stations if some station has traffic, and 1 if none has (also when
  there is no station); the range is \<open>[0, 25]\<close> when the time filter is \<open>-1\<close> and
  \<open>[3, 50]\<close> otherwise.
\<close>

theorem updateScatterPlot_radius_scale:
  "plot_data (updateScatterPlot S T f) = computeStationTraffic S (filterTripsByTime T f) \<and>
   radius_domain (updateScatterPlot S T f) =
     (0, if (\<forall>d \<in> set (plot_data (updateScatterPlot S T f)). totalTraffic d = 0) then 1
         else Max (set (map totalTraffic (plot_data (updateScatterPlot S T f))))) \<and>
   radius_range (updateScatterPlot S T f) = (if f = - 1 then (0, 25) else (3, 50))"
proof -
  let ?ds = "computeStationTraffic S (filterTripsByTime T f)"
  have d: "plot_data (updateScatterPlot S T f) = ?ds"
    by (simp add: updateScatterPlot_def Let_def)
  have r: "radius_range (updateScatterPlot S T f) = (if f = - 1 then (0, 25) else (3, 50))"
    by (simp add: updateScatterPlot_def Let_def)
  define m where "m = (case d3_max (map totalTraffic ?ds) of None \<Rightarrow> 0 | Some m \<Rightarrow> m)"
  have rd: "radius_domain (updateScatterPlot S T f) = (0, if m = 0 then 1 else m)"
    by (simp add: updateScatterPlot_def Let_def m_def)
  have dom: "radius_domain (updateScatterPlot S T f) =
     (0, if (\<forall>d \<in> set ?ds. totalTraffic d = 0) then 1 else Max (set (map totalTraffic ?ds)))"
  proof (cases "\<forall>d \<in> set ?ds. totalTraffic d = 0")
    case True
    then have "m = 0"
      unfolding m_def using max_or_one(1) [of totalTraffic ?ds] by blast
    then show ?thesis
      by (simp add: rd if_P [OF True])
  next
    case False
    then have "m \<noteq> 0"
      unfolding m_def using max_or_one(1) [of totalTraffic ?ds] by blast
    moreover have "m = Max (set (map totalTraffic ?ds))"
      unfolding m_def using max_or_one(2) [OF False] .
    ultimately have "(if m = 0 then 1 else m) = Max (set (map totalTraffic ?ds))"
      by (simp only: if_False)
    then show ?thesis
      by (simp only: rd if_not_P [OF False])
  qed
  show ?thesis
    unfolding d using dom r by (simp only: simp_thms)
qed

theorem updateScatterPlot_radius_scale_witness:
  "map totalTraffic (plot_data (updateScatterPlot [station_A] [] 600)) = [0] \<and>
   radius_domain (updateScatterPlot [station_A] [] 600) = (0, 1) \<and>
   radius_range (updateScatterPlot [station_A] [] 600) = (3, 50) \<and>
   map totalTraffic
     (plot_data (updateScatterPlot [station_A, station_B] [trip_A_B, trip_A_A] (- 1))) = [3, 1] \<and>
   radius_domain (updateScatterPlot [station_A, station_B] [trip_A_B, trip_A_A] (- 1)) = (0, 3) \<and>
   radius_range (updateScatterPlot [station_A, station_B] [trip_A_B, trip_A_A] (- 1)) = (0, 25)"
proof -
  let ?quiet = "updateScatterPlot [station_A] [] 600"
  let ?busy = "updateScatterPlot [station_A, station_B] [trip_A_B, trip_A_A] (- 1)"
  have p1: "plot_data ?quiet =
      [\<lparr>short_name = ''A'', lon = - 71, lat = 42, arrivals = 0, departures = 0, totalTraffic = 0\<rparr>]"
    using updateScatterPlot_radius_scale [of "[station_A]" "[]" 600]
    by (simp add: computeStationTraffic_eq filterTripsByTime_def station_A_def)
  have p2: "map totalTraffic (plot_data ?busy) = [3, 1]"
    using updateScatterPlot_radius_scale [of "[station_A, station_B]" "[trip_A_B, trip_A_A]" "- 1"]
    by (simp add: computeStationTraffic_eq filterTripsByTime_def
        station_A_def station_B_def trip_A_B_def trip_A_A_def)
  have q2: "\<not> (\<forall>d \<in> set (plot_data ?busy). totalTraffic d = 0)"
  proof
    assume "\<forall>d \<in> set (plot_data ?busy). totalTraffic d = 0"
    then have "\<forall>x \<in> set (map totalTraffic (plot_data ?busy)). x = 0"
      by simp
    then show False unfolding p2 by simp
  qed
  from updateScatterPlot_radius_scale [of "[station_A]" "[]" 600] p1
  have 1: "radius_domain ?quiet = (0, 1) \<and> radius_range ?quiet = (3, 50)"
    by simp
  from updateScatterPlot_radius_scale [of "[station_A, station_B]" "[trip_A_B, trip_A_A]" "- 1"] q2
  have 2: "radius_domain ?busy = (0, 3) \<and> radius_range ?busy = (0, 25)"
    unfolding p2 by simp
  from p1 have 0: "map totalTraffic (plot_data ?quiet) = [0]"
    by simp
  from 0 1 p2 2 show ?thesis by blast
qed

text \<open>
  C5. The load handler compares \<open>CAMBRIDGE_BIKE_LANES_URL\<close> with the very string it
  is defined as, so the branch that adds the Cambridge source and layer never runs: on
  the empty style the handler leaves the Boston source and the Boston line layer (with
  the fixed paint) and nothing for Cambridge.
\<close>

theorem on_load_bike_lanes_boston_only:
  "on_load_bike_lanes \<lparr>sources = [], layers = []\<rparr> =
     \<lparr>sources = [(''boston_route'', \<lparr>source_type = ''geojson'', source_data = BOSTON_BIKE_LANES_URL\<rparr>)],
      layers = [\<lparr>layer_id = ''boston-bike-lanes'', layer_type = ''line'',
                 layer_source = ''boston_route'',
                 layer_paint = \<lparr>line_color = ''#32D400'', line_width = 3, line_opacity = 6 / 10\<rparr>\<rparr>]\<rparr> \<and>
   map_of (sources (on_load_bike_lanes \<lparr>sources = [], layers = []\<rparr>)) ''cambridge_route'' = None \<and>
   ''cambridge-bike-lanes'' \<notin> set (map layer_id (layers (on_load_bike_lanes \<lparr>sources = [], layers = []\<rparr>)))"
  by (simp add: on_load_bike_lanes_def addSource_def addLayer_def bikeLanePaint_def
      CAMBRIDGE_BIKE_LANES_URL_def)

section \<open>Unknown identifiers, colour buckets, frame, order and additivity\<close>

text \<open>
  C6 as stated fails for a trip that is unknown at one end only: the trip from \<open>ZZZ\<close>
  to \<open>A\<close> names no station as its start, and still adds one arrival and one to the
  total traffic of station \<open>A\<close>.
\<close>

theorem computeStationTraffic_half_known_counterexample:
  "start_station_id trip_ZZZ_A \<notin> short_name ` set [station_A, station_B] \<and>
   arrivals (computeStationTraffic [station_A, station_B] [trip_ZZZ_A] ! 0) = 1 \<and>
   totalTraffic (computeStationTraffic [station_A, station_B] [trip_ZZZ_A] ! 0) = 1 \<and>
   arrivals (computeStationTraffic [station_A, station_B] [] ! 0) = 0 \<and>
   totalTraffic (computeStationTraffic [station_A, station_B] [] ! 0) = 0 \<and>
   computeStationTraffic [station_A, station_B] [trip_ZZZ_A] \<noteq>
   computeStationTraffic [station_A, station_B] []"
  by (simp add: computeStationTraffic_eq trip_ZZZ_A_def station_A_def station_B_def)

text \<open>
  C6, amended. A start identifier that belongs to no station of \<open>S\<close> adds to no
  station's departures and an end identifier that belongs to no station adds to no
  station's arrivals: the departures are those of the trips whose start is known, the
  arrivals those of the trips whose end is known. A trip unknown at both ends can be
  removed anywhere in the sequence without changing the result; an end of a trip that
  is a station's identifier counts one for that station, whatever the other end is.
  \<open>computeStationTraffic\<close> has no failing branch: it is a total function, as the
  source, which reads a missing key as 0.
\<close>

theorem computeStationTraffic_unknown_ids:
  "map departures (computeStationTraffic S T) =
     map departures (computeStationTraffic S (filter (\<lambda>t. start_station_id t \<in> short_name ` set S) T)) \<and>
   map arrivals (computeStationTraffic S T) =
     map arrivals (computeStationTraffic S (filter (\<lambda>t. end_station_id t \<in> short_name ` set S) T)) \<and>
   (start_station_id t \<notin> short_name ` set S \<longrightarrow>
      map departures (computeStationTraffic S (T1 @ t # T2)) =
      map departures (computeStationTraffic S (T1 @ T2))) \<and>
   (end_station_id t \<notin> short_name ` set S \<longrightarrow>
      map arrivals (computeStationTraffic S (T1 @ t # T2)) =
      map arrivals (computeStationTraffic S (T1 @ T2))) \<and>
   (start_station_id t \<notin> short_name ` set S \<and> end_station_id t \<notin> short_name ` set S \<longrightarrow>
      computeStationTraffic S (T1 @ t # T2) = computeStationTraffic S (T1 @ T2)) \<and>
   (\<forall>i < length S. short_name (S ! i) = start_station_id t \<longrightarrow>
      departures (computeStationTraffic S (T1 @ t # T2) ! i) =
      departures (computeStationTraffic S (T1 @ T2) ! i) + 1) \<and>
   (\<forall>i < length S. short_name (S ! i) = end_station_id t \<longrightarrow>
      arrivals (computeStationTraffic S (T1 @ t # T2) ! i) =
      arrivals (computeStationTraffic S (T1 @ T2) ! i) + 1)"
proof -
  have 1: "map departures (computeStationTraffic S T) =
     map departures (computeStationTraffic S (filter (\<lambda>t. start_station_id t \<in> short_name ` set S) T))"
    by (simp add: computeStationTraffic_eq filter_known_start)
  have 2: "map arrivals (computeStationTraffic S T) =
     map arrivals (computeStationTraffic S (filter (\<lambda>t. end_station_id t \<in> short_name ` set S) T))"
    by (simp add: computeStationTraffic_eq filter_known_end)
  have 3: "start_station_id t \<notin> short_name ` set S \<longrightarrow>
      map departures (computeStationTraffic S (T1 @ t # T2)) =
      map departures (computeStationTraffic S (T1 @ T2))"
    by (auto simp: computeStationTraffic_eq)
  have 4: "end_station_id t \<notin> short_name ` set S \<longrightarrow>
      map arrivals (computeStationTraffic S (T1 @ t # T2)) =
      map arrivals (computeStationTraffic S (T1 @ T2))"
    by (auto simp: computeStationTraffic_eq)
  have 5: "start_station_id t \<notin> short_name ` set S \<and> end_station_id t \<notin> short_name ` set S \<longrightarrow>
      computeStationTraffic S (T1 @ t # T2) = computeStationTraffic S (T1 @ T2)"
    by (auto simp: computeStationTraffic_eq)
  have 6: "\<forall>i < length S. short_name (S ! i) = start_station_id t \<longrightarrow>
      departures (computeStationTraffic S (T1 @ t # T2) ! i) =
      departures (computeStationTraffic S (T1 @ T2) ! i) + 1"
    by (simp add: computeStationTraffic_eq)
  have 7: "\<forall>i < length S. short_name (S ! i) = end_station_id t \<longrightarrow>
      arrivals (computeStationTraffic S (T1 @ t # T2) ! i) =
      arrivals (computeStationTraffic S (T1 @ T2) ! i) + 1"
    by (simp add: computeStationTraffic_eq)
  from 1 2 3 4 5 6 7 show ?thesis by blast
qed

text \<open>
  Scenario C: a trip from \<open>ZZZ\<close> to \<open>YYY\<close> between two known trips changes nothing;
  a trip from \<open>ZZZ\<close> to \<open>A\<close> changes no departures and adds one arrival at \<open>A\<close>.
\<close>

theorem computeStationTraffic_unknown_ids_witness:
  "start_station_id trip_ZZZ \<notin> short_name ` set [station_A, station_B] \<and>
   end_station_id trip_ZZZ \<notin> short_name ` set [station_A, station_B] \<and>
   computeStationTraffic [station_A, station_B] ([trip_A_B] @ trip_ZZZ # [trip_A_A]) =
   computeStationTraffic [station_A, station_B] ([trip_A_B] @ [trip_A_A]) \<and>
   map departures (computeStationTraffic [station_A, station_B] ([trip_A_B] @ trip_ZZZ # [trip_A_A])) =
   map departures (computeStationTraffic [station_A, station_B] ([trip_A_B] @ [trip_A_A])) \<and>
   map arrivals (computeStationTraffic [station_A, station_B] ([trip_A_B] @ trip_ZZZ # [trip_A_A])) =
   map arrivals (computeStationTraffic [station_A, station_B] ([trip_A_B] @ [trip_A_A])) \<and>
   start_station_id trip_ZZZ_A \<notin> short_name ` set [station_A, station_B] \<and>
   map departures (computeStationTraffic [station_A, station_B] ([trip_A_B] @ trip_ZZZ_A # [trip_A_A])) =
   map departures (computeStationTraffic [station_A, station_B] ([trip_A_B] @ [trip_A_A])) \<and>
   (0::nat) < length [station_A, station_B] \<and>
   short_name ([station_A, station_B] ! 0) = end_station_id trip_ZZZ_A \<and>
   arrivals (computeStationTraffic [station_A, station_B] ([trip_A_B] @ trip_ZZZ_A # [trip_A_A]) ! 0) =
   arrivals (computeStationTraffic [station_A, station_B] ([trip_A_B] @ [trip_A_A]) ! 0) + 1 \<and>
   short_name ([station_A, station_B] ! 0) = start_station_id trip_A_A \<and>
   departures (computeStationTraffic [station_A, station_B] ([trip_A_B] @ trip_A_A # []) ! 0) =
   departures (computeStationTraffic [station_A, station_B] ([trip_A_B] @ []) ! 0) + 1"
proof -
  let ?S = "[station_A, station_B]"
  have a: "start_station_id trip_ZZZ \<notin> short_name ` set ?S"
    and b: "end_station_id trip_ZZZ \<notin> short_name ` set ?S"
    and c: "start_station_id trip_ZZZ_A \<notin> short_name ` set ?S"
    and d: "short_name (?S ! 0) = end_station_id trip_ZZZ_A"
    and e: "short_name (?S ! 0) = start_station_id trip_A_A"
    and l: "(0::nat) < length ?S"
    by (simp_all add: trip_ZZZ_def trip_ZZZ_A_def trip_A_A_def station_A_def station_B_def)
  note both = computeStationTraffic_unknown_ids [of ?S "[]" trip_ZZZ "[trip_A_B]" "[trip_A_A]"]
  note half = computeStationTraffic_unknown_ids [of ?S "[]" trip_ZZZ_A "[trip_A_B]" "[trip_A_A]"]
  note known = computeStationTraffic_unknown_ids [of ?S "[]" trip_A_A "[trip_A_B]" "[]"]
  from half have "\<forall>i < length ?S. short_name (?S ! i) = end_station_id trip_ZZZ_A \<longrightarrow>
      arrivals (computeStationTraffic ?S ([trip_A_B] @ trip_ZZZ_A # [trip_A_A]) ! i) =
      arrivals (computeStationTraffic ?S ([trip_A_B] @ [trip_A_A]) ! i) + 1"
    by blast
  from this [rule_format, OF l d]
  have 1: "arrivals (computeStationTraffic ?S ([trip_A_B] @ trip_ZZZ_A # [trip_A_A]) ! 0) =
      arrivals (computeStationTraffic ?S ([trip_A_B] @ [trip_A_A]) ! 0) + 1" .
  from known have "\<forall>i < length ?S. short_name (?S ! i) = start_station_id trip_A_A \<longrightarrow>
      departures (computeStationTraffic ?S ([trip_A_B] @ trip_A_A # []) ! i) =
      departures (computeStationTraffic ?S ([trip_A_B] @ []) ! i) + 1"
    by blast
  from this [rule_format, OF l e]
  have 2: "departures (computeStationTraffic ?S ([trip_A_B] @ trip_A_A # []) ! 0) =
      departures (computeStationTraffic ?S ([trip_A_B] @ []) ! 0) + 1" .
  from both a b have 3: "computeStationTraffic ?S ([trip_A_B] @ trip_ZZZ # [trip_A_A]) =
      computeStationTraffic ?S ([trip_A_B] @ [trip_A_A])"
    by blast
  from half c have 4: "map departures (computeStationTraffic ?S ([trip_A_B] @ trip_ZZZ_A # [trip_A_A])) =
      map departures (computeStationTraffic ?S ([trip_A_B] @ [trip_A_A]))"
    by blast
  from a b c d e l 1 2 3 4 show ?thesis
    by (simp only: simp_thms)
qed

text \<open>
  C7. The input to the colour scale is \<open>departures / totalTraffic\<close> when the total
  traffic is positive and exactly 1/2 when it is 0; it is never the \<open>NaN\<close> or
  \<open>Infinity\<close> that a division by 0 gives. The scale answers one of 0, 1/2 and 1 on it,
  as on every finite number.
\<close>

theorem departureRatio_stationFlow:
  "(0 < totalTraffic d \<longrightarrow>
      departureRatio d = Finite (of_nat (departures d) / of_nat (totalTraffic d))) \<and>
   (totalTraffic d = 0 \<longrightarrow> departureRatio d = Finite (1 / 2)) \<and>
   departureRatio d \<noteq> NaN \<and> departureRatio d \<noteq> Infinity \<and>
   stationFlow (departureRatio d) \<in> {Some 0, Some (1 / 2), Some 1} \<and>
   (\<forall>q. stationFlow (Finite q) \<in> {Some 0, Some (1 / 2), Some 1}) \<and>
   stationFlow Infinity = Some 1"
proof -
  have "stationFlow Infinity = Some 1"
    by (simp add: stationFlow_def scaleQuantize_def)
  then show ?thesis
    by (auto simp: departureRatio_def js_div_def stationFlow_Finite)
qed

theorem departureRatio_stationFlow_witness:
  "0 < totalTraffic busy_station \<and> departureRatio busy_station = Finite (2 / 3) \<and>
   stationFlow (departureRatio busy_station) = Some 1 \<and>
   totalTraffic idle_station = 0 \<and> departureRatio idle_station = Finite (1 / 2) \<and>
   stationFlow (departureRatio idle_station) = Some (1 / 2)"
proof -
  have a: "0 < totalTraffic busy_station" and b: "totalTraffic idle_station = 0"
    by (simp_all add: busy_station_def idle_station_def)
  from departureRatio_stationFlow [of busy_station] a have 1: "departureRatio busy_station = Finite (2 / 3)"
    by (simp add: busy_station_def)
  from departureRatio_stationFlow [of idle_station] b have 2: "departureRatio idle_station = Finite (1 / 2)"
    by simp
  have "stationFlow (Finite (2 / 3)) = Some 1" "stationFlow (Finite (1 / 2)) = Some (1 / 2)"
    by (simp_all add: stationFlow_Finite)
  with a b 1 2 show ?thesis by simp
qed

text \<open>
  C8. On a store in which the station array and the trip array hold references to
  stations and trips, \<open>computeStationTraffic_heap\<close> returns; every object that was in
  the store before the call is unchanged after it, so the station and trip arrays read
  as before; the returned references are pairwise distinct, one per station, and all
  point to objects allocated by the call, which are the annotated stations that
  \<open>computeStationTraffic\<close> computes.
\<close>

theorem computeStationTraffic_heap_frame:
  assumes "read_stations h S = Some ss" and "read_trips h T = Some ts"
  shows "\<exists>R h'. computeStationTraffic_heap h S T = Some (R, h') \<and>
           take (length h) h' = h \<and>
           read_stations h' S = Some ss \<and>
           read_trips h' T = Some ts \<and>
           length R = length S \<and>
           distinct R \<and>
           (\<forall>r \<in> set R. length h \<le> r \<and> r < length h') \<and>
           map (deref h') R = map (\<lambda>x. Some (Station_traffic_object x)) (computeStationTraffic ss ts)"
proof -
  let ?new = "map Station_traffic_object (computeStationTraffic ss ts)"
  let ?R = "[length h ..< length h + length S]"
  have len: "length ?new = length S"
    using read_stations_length [OF assms(1)] by (simp add: computeStationTraffic_def Let_def)
  then have len': "length (computeStationTraffic ss ts) = length S"
    by simp
  have "map (deref (h @ ?new)) ?R = map Some ?new"
    by (rule nth_equalityI) (simp_all add: len' deref_def nth_append)
  then have "map (deref (h @ ?new)) ?R
      = map (\<lambda>x. Some (Station_traffic_object x)) (computeStationTraffic ss ts)"
    by (simp add: comp_def)
  with computeStationTraffic_heap_eq [OF assms] read_stations_append [OF assms(1)]
    read_trips_append [OF assms(2)] len
  show ?thesis by auto
qed

theorem computeStationTraffic_heap_frame_witness:
  "read_stations example_heap [0, 2] = Some [station_A, station_B] \<and>
   read_trips example_heap [1, 3, 4] = Some [trip_A_B, trip_A_A, trip_ZZZ] \<and>
   (\<exists>R h'. computeStationTraffic_heap example_heap [0, 2] [1, 3, 4] = Some (R, h') \<and>
           take (length example_heap) h' = example_heap \<and>
           read_stations h' [0, 2] = Some [station_A, station_B] \<and>
           read_trips h' [1, 3, 4] = Some [trip_A_B, trip_A_A, trip_ZZZ] \<and>
           length R = length [0::nat, 2] \<and>
           distinct R \<and>
           (\<forall>r \<in> set R. length example_heap \<le> r \<and> r < length h') \<and>
           map (deref h') R = map (\<lambda>x. Some (Station_traffic_object x))
             (computeStationTraffic [station_A, station_B] [trip_A_B, trip_A_A, trip_ZZZ]))"
proof -
  have a: "read_stations example_heap [0, 2] = Some [station_A, station_B]"
    by (simp add: example_heap_def get_station_def deref_def)
  have b: "read_trips example_heap [1, 3, 4] = Some [trip_A_B, trip_A_A, trip_ZZZ]"
    by (simp add: example_heap_def get_trip_def deref_def)
  from a b computeStationTraffic_heap_frame [OF a b] show ?thesis by simp
qed

text \<open>
  C9. For every filter value, \<open>filterTripsByTime T f\<close> is a subsequence of \<open>T\<close>: its
  trips are trips of \<open>T\<close> in their order in \<open>T\<close>, none twice over.
\<close>

theorem filterTripsByTime_subseq: "subseq (filterTripsByTime T f) T"
  by (simp add: filterTripsByTime_def)

text \<open>
  C10. Aggregating over \<open>T1 @ T2\<close> gives, station by station, the sums of the arrivals,
  of the departures and of the total traffic of the aggregations over \<open>T1\<close> and over
  \<open>T2\<close>.
\<close>

theorem computeStationTraffic_append:
  "map arrivals (computeStationTraffic S (T1 @ T2)) =
     map2 (+) (map arrivals (computeStationTraffic S T1)) (map arrivals (computeStationTraffic S T2)) \<and>
   map departures (computeStationTraffic S (T1 @ T2)) =
     map2 (+) (map departures (computeStationTraffic S T1)) (map departures (computeStationTraffic S T2)) \<and>
   map totalTraffic (computeStationTraffic S (T1 @ T2)) =
     map2 (+) (map totalTraffic (computeStationTraffic S T1)) (map totalTraffic (computeStationTraffic S T2))"
  by (induction S) (simp_all add: computeStationTraffic_eq)

end
